theory Spec2Isabelle
  imports Complex_Main "HOL-Library.Sublist" "HOL-Library.AList" "HOL-Library.Word"
begin

section \<open>Conversion of GLM checkpoints: a model of \<^verbatim>\<open>convert_glm_weights_to_hf.py\<close>\<close>

text \<open>
  The script renames the keys of a weight dictionary, translates a configuration
  dictionary, concatenates weight shards and rebuilds a tokenizer. Python strings are
  modelled as \<^typ>\<open>string\<close> (a \<^typ>\<open>char\<close> stands for a code point below 256), exceptions
  as values of the type \<open>error\<close>, dictionaries as maps or, where the order of the items
  matters, as association lists.
\<close>

subsection \<open>Exceptions\<close>

datatype error =
    KeyError string
  | IndexError
  | ValueError
  | TypeError
  | OverflowError
  | AttributeError
  | OSError string
  | ExternalError string

subsection \<open>Python's string operations\<close>

text \<open>
  \<^verbatim>\<open>s.replace(old, new)\<close>: every occurrence of \<open>old\<close>, found from left to right without
  overlap, is replaced. With an empty \<open>old\<close> Python puts \<open>new\<close> before every character and
  at the end.
\<close>

function str_replace :: "'a list \<Rightarrow> 'a list \<Rightarrow> 'a list \<Rightarrow> 'a list" where
  "str_replace old new s =
     (if old = [] then new @ concat (map (\<lambda>c. c # new) s)
      else if s = [] then []
      else if prefix old s then new @ str_replace old new (drop (length old) s)
      else hd s # str_replace old new (tl s))"
  by pat_completeness auto
termination
  by (relation "measure (\<lambda>(old, new, s). length s)") auto

declare str_replace.simps [simp del]

text \<open>
  \<^verbatim>\<open>s.split(sep, maxsplit)\<close> for a separator of one character: at most \<open>maxsplit\<close> cuts,
  from the left; the rest of the string is the last piece.
\<close>

fun str_split :: "char \<Rightarrow> nat \<Rightarrow> string \<Rightarrow> string list" where
  "str_split sep 0 s = [s]"
| "str_split sep (Suc n) [] = [[]]"
| "str_split sep (Suc n) (c # cs) =
     (if c = sep then [] # str_split sep n cs
      else (case str_split sep (Suc n) cs of
              [] \<Rightarrow> [[c]]
            | piece # pieces \<Rightarrow> (c # piece) # pieces))"

text \<open>
  \<^verbatim>\<open>int(s)\<close> on a string: white space is stripped at both ends, a sign may follow, then
  decimal digits, where single underscores may stand between digits. \<open>None\<close> is
  Python's \<^verbatim>\<open>ValueError\<close>. The white space \<^verbatim>\<open>int\<close> strips below code point 256 is tab,
  line feed, vertical tab, form feed, carriage return, blank, next line and no-break
  space.
\<close>

definition is_space :: "char \<Rightarrow> bool" where
  "is_space c = (of_char c \<in> {9, 10, 11, 12, 13, 32, 133, 160 :: nat})"

definition is_digit :: "char \<Rightarrow> bool" where
  "is_digit c = (48 \<le> (of_char c :: nat) \<and> (of_char c :: nat) \<le> 57)"

definition digit_val :: "char \<Rightarrow> nat" where
  "digit_val c = of_char c - 48"

definition str_strip :: "string \<Rightarrow> string" where
  "str_strip s = rev (dropWhile is_space (rev (dropWhile is_space s)))"

fun parse_digits :: "bool \<Rightarrow> nat \<Rightarrow> string \<Rightarrow> nat option" where
  "parse_digits after_digit acc [] = (if after_digit then Some acc else None)"
| "parse_digits after_digit acc (c # cs) =
     (if is_digit c then parse_digits True (10 * acc + digit_val c) cs
      else if c = CHR ''_'' \<and> after_digit then parse_digits False acc cs
      else None)"

definition py_int :: "string \<Rightarrow> int option" where
  "py_int s =
     (case str_strip s of
        [] \<Rightarrow> None
      | c # cs \<Rightarrow>
          if c = CHR ''+'' then map_option int (parse_digits False 0 cs)
          else if c = CHR ''-'' then map_option (\<lambda>n. - int n) (parse_digits False 0 cs)
          else map_option int (parse_digits False 0 (c # cs)))"

text \<open>\<^verbatim>\<open>os.path.join(a, b)\<close> of \<^verbatim>\<open>posixpath\<close>, for two components.\<close>

definition path_join :: "string \<Rightarrow> string \<Rightarrow> string" where
  "path_join a b =
     (if prefix ''/'' b then b
      else if a = [] \<or> suffix ''/'' a then a @ b
      else a @ ''/'' @ b)"

subsection \<open>The weight key remapper\<close>

text \<open>
  \<^verbatim>\<open>STATE_DICT_MAPPING\<close> is a dictionary literal; Python iterates over its items in the
  order they are written, so it is the list of its items.
\<close>

definition STATE_DICT_MAPPING :: "(string \<times> string) list" where
  "STATE_DICT_MAPPING =
     [(''transformer.'', ''model.''),
      (''transformer.output_layer.'', ''lm_head.''),
      (''.embedding.'', ''.embed_tokens.''),
      (''.encoder.layers.'', ''.layers.''),
      (''final_layernorm.'', ''norm.''),
      (''rotary_pos_embed.'', ''rotary_emb.''),
      (''self_attention.'', ''self_attn.''),
      (''query_key_value.'', ''qkv_proj.''),
      (''dense.'', ''o_proj.''),
      (''dense_h_to_4h.'', ''gate_up_proj.''),
      (''dense_4h_to_h.'', ''down_proj.'')]"

text \<open>The inner loop of \<^verbatim>\<open>convert_state_dict\<close>: every rule in turn, on the key so far.\<close>

definition rename_key :: "string \<Rightarrow> string" where
  "rename_key key =
     fold (\<lambda>(old, new) new_key. str_replace old new new_key) STATE_DICT_MAPPING key"

text \<open>
  The outer loop. Both dictionaries are lists of items in insertion order;
  \<^verbatim>\<open>new_dict[new_key] = value\<close> overwrites the value of a key that is already there and
  appends a new key, which is \<^const>\<open>AList.update\<close>.
\<close>

definition convert_state_dict :: "(string \<times> 'v) list \<Rightarrow> (string \<times> 'v) list" where
  "convert_state_dict original_state_dict =
     fold (\<lambda>(key, value) new_dict. AList.update (rename_key key) value new_dict)
       original_state_dict []"

text \<open>
  The discipline the rule list is meant to obey: no rule is followed by a rule whose old
  substring it is a proper prefix of.
\<close>

fun longer_prefix_first :: "('a list \<times> 'b) list \<Rightarrow> bool" where
  "longer_prefix_first [] = True"
| "longer_prefix_first ((old, new) # rules) =
     (list_all (\<lambda>(old', new'). \<not> strict_prefix old old') rules \<and> longer_prefix_first rules)"

text \<open>
  Some non-empty suffix of \<open>p\<close> is a prefix of \<open>new\<close> or begins with \<open>new\<close>: a piece of
  text ending in \<open>p\<close> can run into a following \<open>new\<close>.
\<close>

fun meets :: "'a list \<Rightarrow> 'a list \<Rightarrow> bool" where
  "meets [] new = False"
| "meets (c # p) new = (prefix (c # p) new \<or> prefix new (c # p) \<or> meets p new)"

subsection \<open>The config translator\<close>

text \<open>
  Python's floats are IEEE doubles: the finite ones, given by their value, with the
  negative zero apart (\<open>Finite 0\<close> is the positive one), the two infinities and
  not-a-number.
\<close>

datatype pyfloat = Finite real | NegZero | PosInf | NegInf | NaN

text \<open>The integer nearest to a real number, the even one of two that are equally near.\<close>

definition round_half_even :: "real \<Rightarrow> int" where
  "round_half_even r =
     (let f = \<lfloor>r\<rfloor>; d = r - of_int f
      in if d < 1 / 2 then f else if 1 / 2 < d then f + 1 else if even f then f else f + 1)"

text \<open>
  The double nearest to a real number, ties to the even significand: with the exponent
  \<open>e\<close> of the number, not below that of the smallest normal double, the doubles around
  it are the multiples of \<open>2 powi (e - 52)\<close>. What is rounded up to \<open>2 ^ 1024\<close> or lies
  beyond is infinite; what is rounded to nothing is a zero with the sign of the number.
\<close>

definition round_double :: "real \<Rightarrow> pyfloat" where
  "round_double x =
     (let e = max \<lfloor>log 2 \<bar>x\<bar>\<rfloor> (- 1022);
          ulp = 2 powi (e - 52);
          n = round_half_even (\<bar>x\<bar> / ulp);
          y = of_int n * ulp
      in if x = 0 then Finite 0
         else if 2 ^ 1024 \<le> y then (if 0 < x then PosInf else NegInf)
         else if n = 0 then (if 0 < x then Finite 0 else NegZero)
         else Finite (if 0 < x then y else - y))"

text \<open>
  \<^verbatim>\<open>float(i)\<close> for an integer, as the product converts its operand: the nearest
  double, or an \<^verbatim>\<open>OverflowError\<close> (\<open>None\<close>) where that would be infinite.
\<close>

definition int_to_float :: "int \<Rightarrow> pyfloat option" where
  "int_to_float i =
     (case round_double (of_int i) of
        PosInf \<Rightarrow> None
      | NegInf \<Rightarrow> None
      | x \<Rightarrow> Some x)"

text \<open>The product of two floats: the exact product, rounded; no exception.\<close>

fun negative :: "pyfloat \<Rightarrow> bool" where
  "negative (Finite r) = (r < 0)"
| "negative NegZero = True"
| "negative NegInf = True"
| "negative x = False"

fun is_zero :: "pyfloat \<Rightarrow> bool" where
  "is_zero (Finite r) = (r = 0)"
| "is_zero NegZero = True"
| "is_zero x = False"

fun is_inf :: "pyfloat \<Rightarrow> bool" where
  "is_inf PosInf = True"
| "is_inf NegInf = True"
| "is_inf x = False"

fun value_of :: "pyfloat \<Rightarrow> real" where
  "value_of (Finite r) = r"
| "value_of x = 0"

definition float_mul :: "pyfloat \<Rightarrow> pyfloat \<Rightarrow> pyfloat" where
  "float_mul a b =
     (if a = NaN \<or> b = NaN then NaN
      else if is_inf a \<or> is_inf b then
        (if is_zero a \<or> is_zero b then NaN
         else if negative a \<noteq> negative b then NegInf else PosInf)
      else if is_zero a \<or> is_zero b then
        (if negative a \<noteq> negative b then NegZero else Finite 0)
      else round_double (value_of a * value_of b))"

text \<open>The values \<^verbatim>\<open>json.load\<close> produces.\<close>

datatype json =
    JNull
  | JBool bool
  | JInt int
  | JFloat pyfloat
  | JStr string
  | JArr "json list"
  | JObj "(string \<times> json) list"

text \<open>Python's truth value of such a value, as \<^verbatim>\<open>not\<close> tests it.\<close>

fun truthy :: "json \<Rightarrow> bool" where
  "truthy JNull = False"
| "truthy (JBool b) = b"
| "truthy (JInt i) = (i \<noteq> 0)"
| "truthy (JFloat x) = (\<not> is_zero x)"
| "truthy (JStr s) = (s \<noteq> [])"
| "truthy (JArr xs) = (xs \<noteq> [])"
| "truthy (JObj kvs) = (kvs \<noteq> [])"

text \<open>
  \<^verbatim>\<open>c * v\<close> for a float \<open>c\<close>: the product of floats when \<open>v\<close> is a float; an integer
  or a truth value is converted first, with an \<^verbatim>\<open>OverflowError\<close> for an integer beyond
  the doubles; any other value gives a \<^verbatim>\<open>TypeError\<close>.
\<close>

fun float_times :: "pyfloat \<Rightarrow> json \<Rightarrow> error + json" where
  "float_times c (JInt i) =
     (case int_to_float i of
        None \<Rightarrow> Inl OverflowError
      | Some x \<Rightarrow> Inr (JFloat (float_mul c x)))"
| "float_times c (JFloat x) = Inr (JFloat (float_mul c x))"
| "float_times c (JBool b) = Inr (JFloat (float_mul c (Finite (if b then 1 else 0))))"
| "float_times c v = Inl TypeError"

text \<open>
  Modelled from the spec: \<^verbatim>\<open>GlmConfig\<close>, the target configuration class, is not among the
  sources. It is the fixed schema of the nineteen fields \<^verbatim>\<open>convert_config\<close> passes as
  keyword arguments, each stored as given.
\<close>

record GlmConfig =
  vocab_size :: json
  hidden_size :: json
  intermediate_size :: json
  num_hidden_layers :: json
  num_attention_heads :: json
  num_key_value_heads :: json
  resid_pdrop :: json
  attention_dropout :: json
  max_position_embeddings :: json
  initializer_range :: json
  rms_norm_eps :: json
  rope_theta :: json
  use_rms_norm :: json
  apply_residual_connection_post_layernorm :: json
  post_layer_norm :: json
  use_cache :: json
  head_dim :: json
  attention_bias :: json
  linear_bias :: json

type_synonym config_dict = "string \<rightharpoonup> json"

text \<open>
  \<^verbatim>\<open>d.pop(k)\<close> with no default: the value and the dictionary without the key, or a
  \<^verbatim>\<open>KeyError\<close> that names the key.
\<close>

definition remove_key :: "string \<Rightarrow> config_dict \<Rightarrow> config_dict" where
  "remove_key k d = d(k := None)"

definition pop :: "string \<Rightarrow> config_dict \<Rightarrow> error + (json \<times> config_dict)" where
  "pop k d = (case d k of None \<Rightarrow> Inl (KeyError k) | Some v \<Rightarrow> Inr (v, remove_key k d))"

text \<open>Sequencing: an exception of the first computation ends the whole.\<close>

definition and_then :: "'e + 'a \<Rightarrow> ('a \<Rightarrow> 'e + 'b) \<Rightarrow> 'e + 'b" where
  "and_then m f = (case m of Inl e \<Rightarrow> Inl e | Inr x \<Rightarrow> f x)"

text \<open>
  \<^verbatim>\<open>convert_config\<close>: the pops in the order Python evaluates them. The result is the
  new configuration and what is left of \<^verbatim>\<open>original_config\<close>, whose keys are printed.
\<close>

definition convert_config :: "config_dict \<Rightarrow> error + (GlmConfig \<times> config_dict)" where
  "convert_config original_config =
     and_then (pop ''num_attention_heads'' original_config) (\<lambda>(n_heads, c1).
     and_then (pop ''padded_vocab_size'' c1) (\<lambda>(a_vocab_size, c2).
     and_then (pop ''hidden_size'' c2) (\<lambda>(a_hidden_size, c3).
     and_then (pop ''ffn_hidden_size'' c3) (\<lambda>(a_intermediate_size, c4).
     and_then (pop ''num_hidden_layer'' c4) (\<lambda>(a_num_hidden_layers, c5).
     and_then (pop ''multi_query_attention'' c5) (\<lambda>(multi_query_attention, c6).
     and_then (if \<not> truthy multi_query_attention then Inr (n_heads, c6)
               else pop ''multi_query_group_num'' c6) (\<lambda>(a_num_key_value_heads, c7).
     and_then (pop ''hidden_dropout'' c7) (\<lambda>(a_resid_pdrop, c8).
     and_then (pop ''attention_dropout'' c8) (\<lambda>(a_attention_dropout, c9).
     and_then (pop ''max_position_embeddings'' c9) (\<lambda>(a_max_position_embeddings, c10).
     and_then (pop ''initializer_range'' c10) (\<lambda>(a_initializer_range, c11).
     and_then (pop ''layernorm_epsilon'' c11) (\<lambda>(a_rms_norm_eps, c12).
     and_then (pop ''rope_ratio'' c12) (\<lambda>(rope_ratio, c13).
     and_then (float_times (Finite 10000) rope_ratio) (\<lambda>a_rope_theta.
     and_then (pop ''rmsnorm'' c13) (\<lambda>(a_use_rms_norm, c14).
     and_then (pop ''apply_residual_connection_post_layernorm'' c14) (\<lambda>(a_apply_residual, c15).
     and_then (pop ''post_layer_norm'' c15) (\<lambda>(a_post_layer_norm, c16).
     and_then (pop ''use_cache'' c16) (\<lambda>(a_use_cache, c17).
     and_then (pop ''kv_channels'' c17) (\<lambda>(a_head_dim, c18).
     and_then (pop ''add_qkv_bias'' c18) (\<lambda>(a_attention_bias, c19).
     and_then (pop ''add_bias_linear'' c19) (\<lambda>(a_linear_bias, c20).
     Inr (\<lparr>vocab_size = a_vocab_size,
           hidden_size = a_hidden_size,
           intermediate_size = a_intermediate_size,
           num_hidden_layers = a_num_hidden_layers,
           num_attention_heads = n_heads,
           num_key_value_heads = a_num_key_value_heads,
           resid_pdrop = a_resid_pdrop,
           attention_dropout = a_attention_dropout,
           max_position_embeddings = a_max_position_embeddings,
           initializer_range = a_initializer_range,
           rms_norm_eps = a_rms_norm_eps,
           rope_theta = a_rope_theta,
           use_rms_norm = a_use_rms_norm,
           apply_residual_connection_post_layernorm = a_apply_residual,
           post_layer_norm = a_post_layer_norm,
           use_cache = a_use_cache,
           head_dim = a_head_dim,
           attention_bias = a_attention_bias,
           linear_bias = a_linear_bias\<rparr>, c20))))))))))))))))))))))"

text \<open>The keys \<^verbatim>\<open>convert_config\<close> pops whatever the dictionary holds, in its order.\<close>

definition unconditional_keys :: "string list" where
  "unconditional_keys =
     [''num_attention_heads'', ''padded_vocab_size'', ''hidden_size'', ''ffn_hidden_size'',
      ''num_hidden_layer'', ''multi_query_attention'', ''hidden_dropout'',
      ''attention_dropout'', ''max_position_embeddings'', ''initializer_range'',
      ''layernorm_epsilon'', ''rope_ratio'', ''rmsnorm'',
      ''apply_residual_connection_post_layernorm'', ''post_layer_norm'', ''use_cache'',
      ''kv_channels'', ''add_qkv_bias'', ''add_bias_linear'']"

text \<open>
  The keys it pops from a given dictionary: \<^verbatim>\<open>multi_query_group_num\<close> is read only
  when the flag \<^verbatim>\<open>multi_query_attention\<close> is true.
\<close>

definition multi_query :: "config_dict \<Rightarrow> bool" where
  "multi_query d = (case d ''multi_query_attention'' of None \<Rightarrow> False | Some v \<Rightarrow> truthy v)"

definition required_keys :: "config_dict \<Rightarrow> string list" where
  "required_keys d =
     unconditional_keys @ (if multi_query d then [''multi_query_group_num''] else [])"

text \<open>
  The values a float can be multiplied with: a float, a truth value, or an integer
  that a double can hold.
\<close>

fun numeric :: "json \<Rightarrow> bool" where
  "numeric (JInt i) = (int_to_float i \<noteq> None)"
| "numeric (JFloat x) = True"
| "numeric (JBool b) = True"
| "numeric v = False"

text \<open>
  A source configuration with all twenty fields the script knows, for a given value of
  the flag \<^verbatim>\<open>multi_query_attention\<close> and of \<^verbatim>\<open>rope_ratio\<close>.
\<close>

definition sample_config :: "bool \<Rightarrow> json \<Rightarrow> config_dict" where
  "sample_config flag ratio = map_of
     [(''num_attention_heads'', JInt 32),
      (''padded_vocab_size'', JInt 151552),
      (''hidden_size'', JInt 4096),
      (''ffn_hidden_size'', JInt 13696),
      (''num_hidden_layer'', JInt 40),
      (''multi_query_attention'', JBool flag),
      (''multi_query_group_num'', JInt 2),
      (''hidden_dropout'', JFloat (Finite 0)),
      (''attention_dropout'', JFloat (Finite 0)),
      (''max_position_embeddings'', JInt 8192),
      (''initializer_range'', JFloat (Finite (1 / 64))),
      (''layernorm_epsilon'', JFloat (Finite (1 / 2 ^ 17))),
      (''rope_ratio'', ratio),
      (''rmsnorm'', JBool True),
      (''apply_residual_connection_post_layernorm'', JBool False),
      (''post_layer_norm'', JBool True),
      (''use_cache'', JBool True),
      (''kv_channels'', JInt 128),
      (''add_qkv_bias'', JBool True),
      (''add_bias_linear'', JBool False)]"

subsection \<open>The shard merger\<close>

type_synonym bytes = "8 word list"

text \<open>A file system: the contents of the files, by path.\<close>

type_synonym filesystem = "string \<rightharpoonup> bytes"

text \<open>The sort key of \<^verbatim>\<open>merge_safetensors\<close>: \<^verbatim>\<open>int(x.split('-', 2)[1])\<close>.\<close>

definition shard_ordinal :: "string \<Rightarrow> error + int" where
  "shard_ordinal x =
     (case str_split CHR ''-'' 2 x of
        first # second # pieces \<Rightarrow>
          (case py_int second of None \<Rightarrow> Inl ValueError | Some n \<Rightarrow> Inr n)
      | pieces \<Rightarrow> Inl IndexError)"

text \<open>
  \<^verbatim>\<open>sorted(xs, key=...)\<close>: the keys are computed from left to right, the first exception
  ends the call; the sort is stable, as \<^const>\<open>sort_key\<close> is.
\<close>

fun with_ordinals :: "string list \<Rightarrow> error + (int \<times> string) list" where
  "with_ordinals [] = Inr []"
| "with_ordinals (x # xs) =
     and_then (shard_ordinal x) (\<lambda>k.
     and_then (with_ordinals xs) (\<lambda>kxs. Inr ((k, x) # kxs)))"

definition sorted_by_ordinal :: "string list \<Rightarrow> error + string list" where
  "sorted_by_ordinal xs =
     and_then (with_ordinals xs) (\<lambda>kxs. Inr (map snd (sort_key fst kxs)))"

text \<open>
  The loop over the sorted files: each file is read whole and appended to what has been
  written to the output so far. A file that cannot be read ends the loop with what was
  written before. The output file was emptied when it was opened; should it be among
  the files read, it holds what the writer has passed on of the bytes written so far,
  and \<open>flushed\<close> says how much that is.
\<close>

fun copy_shards ::
    "(bytes \<Rightarrow> bytes) \<Rightarrow> filesystem \<Rightarrow> string \<Rightarrow> string list \<Rightarrow> bytes
       \<Rightarrow> (error + unit) \<times> bytes" where
  "copy_shards flushed fs output_path [] written = (Inr (), written)"
| "copy_shards flushed fs output_path (filepath # rest) written =
     (case (if filepath = output_path then Some (flushed written) else fs filepath) of
        None \<Rightarrow> (Inl (OSError filepath), written)
      | Some content \<Rightarrow> copy_shards flushed fs output_path rest (written @ content))"

text \<open>
  \<^verbatim>\<open>merge_safetensors\<close>. \<open>listing\<close> is what \<^verbatim>\<open>os.listdir(input_dir)\<close> returns, in the order
  it returns it. The result is the exception, if any, and the file system afterwards.
  The sort comes before the output file is opened; opening it for writing empties it,
  and leaving the \<^verbatim>\<open>with\<close> block stores what was written, also when a read failed.
\<close>

definition merge_safetensors ::
    "(bytes \<Rightarrow> bytes) \<Rightarrow> string list \<Rightarrow> string \<Rightarrow> filesystem
       \<Rightarrow> (error + unit) \<times> filesystem" where
  "merge_safetensors flushed listing input_dir fs =
     (let all_files = map (path_join input_dir) (filter (suffix ''.safetensors'') listing)
      in case sorted_by_ordinal all_files of
           Inl e \<Rightarrow> (Inl e, fs)
         | Inr all_files' \<Rightarrow>
             (let output_path = path_join input_dir ''consolidated.safetensors'';
                  (outcome, written) = copy_shards flushed fs output_path all_files' []
              in (outcome, fs(output_path \<mapsto> written))))"

text \<open>
  Two shards of one and two bytes, in a directory named like the checkpoint and in a
  directory whose name has no hyphen; and a directory that holds a single file.
\<close>

definition two_shards :: "string \<Rightarrow> filesystem" where
  "two_shards dir =
     [path_join dir ''model-00001-of-00002.safetensors'' \<mapsto> [1],
      path_join dir ''model-00002-of-00002.safetensors'' \<mapsto> [2, 3]]"

definition one_file :: "string \<Rightarrow> string \<Rightarrow> filesystem" where
  "one_file dir name = [path_join dir name \<mapsto> [7]]"

subsection \<open>The tokenizer rebuilder\<close>

text \<open>
  The attributes of a \<^verbatim>\<open>Tokenizer\<close> object that \<^verbatim>\<open>GlmConverter.converted\<close> sets, as the
  arguments it passes; \<open>'m\<close> is the vocabulary model, which it does not touch.
\<close>

datatype pre_tokenizer =
    Split string string bool
  | PreByteLevel bool bool

datatype decoder = DecByteLevel

datatype processor =
    ByteLevel bool
  | TemplateProcessing string string "(string \<times> nat) list"

record 'm tokenizer =
  vocab_model :: 'm
  pre_tokenizer :: "pre_tokenizer list"
  decoder :: "decoder option"
  added_special_tokens :: "string list"
  post_processor :: "processor list"

text \<open>
  What \<^verbatim>\<open>converted\<close> reads of \<^verbatim>\<open>self\<close>: the result of \<^verbatim>\<open>self.tokenizer()\<close>, and the
  attributes \<^verbatim>\<open>pattern\<close>, \<^verbatim>\<open>add_prefix_space\<close> and \<^verbatim>\<open>additional_special_tokens\<close>.
\<close>

record 'm tiktoken_converter =
  base_tokenizer :: "'m tokenizer"
  pattern :: string
  add_prefix_space :: bool
  converter_special_tokens :: "string list"

definition converted :: "'m tiktoken_converter \<Rightarrow> 'm tokenizer" where
  "converted self =
     (base_tokenizer self)
       \<lparr>pre_tokenizer := [Split (pattern self) ''isolated'' False,
                          PreByteLevel (add_prefix_space self) False],
        decoder := Some DecByteLevel,
        added_special_tokens :=
          added_special_tokens (base_tokenizer self) @ converter_special_tokens self,
        post_processor :=
          [ByteLevel False,
           TemplateProcessing ''[gMASK]:0 <sop>:0 $A:0'' ''[gMASK]:0 <sop>:0 $A:0 $B:1''
             [(''[gMASK]'', 151331), (''<sop>'', 151333)]]\<rparr>"

text \<open>
  Modelled from the spec: what the post-processors of the \<^verbatim>\<open>tokenizers\<close> library do
  with their arguments is not among the sources. An encoding is the token ids of an
  input with their type identifiers. A template is a list of pieces separated by
  blanks; a piece \<^verbatim>\<open>$A:t\<close> or \<^verbatim>\<open>$B:t\<close> stands for the first or second input with type
  identifier \<open>t\<close>, any other piece \<^verbatim>\<open>name:t\<close> for the special token \<open>name\<close>, which is
  replaced by the id bound to it. The byte-level processor adjusts offsets only (and
  trims them only when asked to), so it leaves ids and type identifiers as they are.
\<close>

record encoding =
  ids :: "nat list"
  type_ids :: "nat list"

datatype piece = SequenceA nat | SequenceB nat | SpecialToken string nat

fun parse_nat :: "string \<Rightarrow> nat option" where
  "parse_nat s = parse_digits False 0 s"

definition parse_piece :: "string \<Rightarrow> piece option" where
  "parse_piece s =
     (case str_split CHR '':'' (length s) s of
        [name, t] \<Rightarrow>
          (case parse_nat t of
             None \<Rightarrow> None
           | Some n \<Rightarrow>
               if name = ''$A'' then Some (SequenceA n)
               else if name = ''$B'' then Some (SequenceB n)
               else Some (SpecialToken name n))
      | pieces \<Rightarrow> None)"

fun those_pieces :: "piece option list \<Rightarrow> piece list option" where
  "those_pieces [] = Some []"
| "those_pieces (None # ps) = None"
| "those_pieces (Some p # ps) = map_option ((#) p) (those_pieces ps)"

definition parse_template :: "string \<Rightarrow> piece list option" where
  "parse_template s = those_pieces (map parse_piece (str_split CHR '' '' (length s) s))"

fun fill_template ::
    "(string \<times> nat) list \<Rightarrow> nat list \<Rightarrow> nat list \<Rightarrow> piece list \<Rightarrow> encoding option" where
  "fill_template special a b [] = Some \<lparr>ids = [], type_ids = []\<rparr>"
| "fill_template special a b (p # ps) =
     (case fill_template special a b ps of
        None \<Rightarrow> None
      | Some e \<Rightarrow>
          (case p of
             SequenceA t \<Rightarrow>
               Some \<lparr>ids = a @ ids e, type_ids = replicate (length a) t @ type_ids e\<rparr>
           | SequenceB t \<Rightarrow>
               Some \<lparr>ids = b @ ids e, type_ids = replicate (length b) t @ type_ids e\<rparr>
           | SpecialToken name t \<Rightarrow>
               (case map_of special name of
                  None \<Rightarrow> None
                | Some i \<Rightarrow> Some \<lparr>ids = i # ids e, type_ids = t # type_ids e\<rparr>)))"

text \<open>
  One processor on the inputs so far: one input or a pair. The template processor
  joins them into one encoding; the byte-level processor passes them on.
\<close>

fun process :: "processor \<Rightarrow> nat list list \<Rightarrow> encoding option" where
  "process (TemplateProcessing single_t pair_t special) [a] =
     (case parse_template single_t of
        None \<Rightarrow> None
      | Some ps \<Rightarrow> fill_template special a [] ps)"
| "process (TemplateProcessing single_t pair_t special) [a, b] =
     (case parse_template pair_t of
        None \<Rightarrow> None
      | Some ps \<Rightarrow> fill_template special a b ps)"
| "process p inputs = None"

fun post_process :: "processor list \<Rightarrow> nat list list \<Rightarrow> encoding option" where
  "post_process [] inputs = None"
| "post_process (ByteLevel trim_offsets # ps) inputs = post_process ps inputs"
| "post_process (p # ps) inputs = process p inputs"

text \<open>
  \<^verbatim>\<open>convert_glm_tokenizer\<close>: the attributes copied from the reference tokenizer, and
  the rebuilt tokenizer object.
\<close>

record tokenizer_attrs =
  bos_token :: "string option"
  eos_token :: "string option"
  pad_token :: "string option"
  clean_up_tokenization_spaces :: bool
  additional_special_tokens :: "string list"
  padding_side :: string

record 'm fast_tokenizer = tokenizer_attrs +
  tokenizer_object :: "'m tokenizer"

subsection \<open>The pipeline\<close>

text \<open>
  The collaborators of \<^verbatim>\<open>convert_glm_model\<close> that are not part of the script: the
  directory listing, the writer's buffer, the parsers of the files, the model class and
  the \<^verbatim>\<open>save_pretrained\<close> methods. Those that write return the file system they leave.
\<close>

record ('v, 'm, 'g) collaborators =
  listdir :: "filesystem \<Rightarrow> string \<Rightarrow> string list"
  writer_flushed :: "bytes \<Rightarrow> bytes"
  json_load :: "bytes \<Rightarrow> error + json"
  config_save_pretrained ::
    "GlmConfig \<Rightarrow> string \<Rightarrow> filesystem \<Rightarrow> (error + unit) \<times> filesystem"
  safe_load_file :: "bytes \<Rightarrow> error + (string \<times> 'v) list"
  load_state_dict :: "GlmConfig \<Rightarrow> (string \<times> 'v) list \<Rightarrow> error + 'g"
  model_save_pretrained :: "'g \<Rightarrow> string \<Rightarrow> filesystem \<Rightarrow> (error + unit) \<times> filesystem"
  make_converter :: "filesystem \<Rightarrow> string \<Rightarrow> string list \<Rightarrow> error + 'm tiktoken_converter"
  from_pretrained :: "string \<Rightarrow> error + tokenizer_attrs"
  tokenizer_save_pretrained ::
    "'m fast_tokenizer \<Rightarrow> string \<Rightarrow> filesystem \<Rightarrow> (error + unit) \<times> filesystem"

definition convert_glm_tokenizer ::
    "('v, 'm, 'g) collaborators \<Rightarrow> string \<Rightarrow> filesystem \<Rightarrow> error + 'm fast_tokenizer" where
  "convert_glm_tokenizer ext input_dir fs =
     and_then (make_converter ext fs (path_join input_dir ''tokenizer.model'') []) (\<lambda>self.
     and_then (from_pretrained ext ''THUDM/glm-4-9b'') (\<lambda>reference.
     Inr \<lparr>bos_token = bos_token reference,
          eos_token = eos_token reference,
          pad_token = pad_token reference,
          clean_up_tokenization_spaces = clean_up_tokenization_spaces reference,
          additional_special_tokens = additional_special_tokens reference,
          padding_side = padding_side reference,
          tokenizer_object = converted self\<rparr>))"

text \<open>
  What \<^verbatim>\<open>original_config.pop\<close> finds when \<^verbatim>\<open>json.load\<close> returned something else than a
  dictionary: a list refuses the key, the other values have no \<^verbatim>\<open>pop\<close>.
\<close>

fun as_dict :: "json \<Rightarrow> error + config_dict" where
  "as_dict (JObj kvs) = Inr (map_of kvs)"
| "as_dict (JArr xs) = Inl TypeError"
| "as_dict v = Inl AttributeError"

text \<open>
  \<^verbatim>\<open>convert_glm_model\<close>: the exception that ends it, if any, and the file system it
  leaves.
\<close>

definition convert_glm_model ::
    "('v, 'm, 'g) collaborators \<Rightarrow> string \<Rightarrow> string \<Rightarrow> filesystem
       \<Rightarrow> (error + unit) \<times> filesystem" where
  "convert_glm_model ext input_dir output_dir fs =
     (case fs (path_join input_dir ''config.json'') of
        None \<Rightarrow> (Inl (OSError (path_join input_dir ''config.json'')), fs)
      | Some raw \<Rightarrow>
     (case and_then (json_load ext raw) (\<lambda>j. and_then (as_dict j) convert_config) of
        Inl e \<Rightarrow> (Inl e, fs)
      | Inr (config, unused) \<Rightarrow>
     (case config_save_pretrained ext config output_dir fs of
        (Inl e, fs1) \<Rightarrow> (Inl e, fs1)
      | (Inr u1, fs1) \<Rightarrow>
     (case merge_safetensors (writer_flushed ext) (listdir ext fs1 input_dir) input_dir fs1 of
        (Inl e, fs2) \<Rightarrow> (Inl e, fs2)
      | (Inr u2, fs2) \<Rightarrow>
     (case fs2 (path_join input_dir ''consolidated.safetensors'') of
        None \<Rightarrow> (Inl (OSError (path_join input_dir ''consolidated.safetensors'')), fs2)
      | Some merged \<Rightarrow>
     (case safe_load_file ext merged of
        Inl e \<Rightarrow> (Inl e, fs2)
      | Inr original_state_dict \<Rightarrow>
     (case load_state_dict ext config (convert_state_dict original_state_dict) of
        Inl e \<Rightarrow> (Inl e, fs2)
      | Inr model \<Rightarrow>
     (case model_save_pretrained ext model output_dir fs2 of
        (Inl e, fs3) \<Rightarrow> (Inl e, fs3)
      | (Inr u3, fs3) \<Rightarrow>
     (case convert_glm_tokenizer ext input_dir fs3 of
        Inl e \<Rightarrow> (Inl e, fs3)
      | Inr tokenizer \<Rightarrow> tokenizer_save_pretrained ext tokenizer output_dir fs3)))))))))"

text \<open>
  Collaborators to run the pipeline on: \<^verbatim>\<open>json.load\<close> returns the given value,
  saving the configuration or the model writes a file to the output directory, and
  the tokenizer's vocabulary cannot be read.
\<close>

definition sample_collaborators :: "json \<Rightarrow> (unit, unit, unit) collaborators" where
  "sample_collaborators j =
     \<lparr>listdir = (\<lambda>fs dir. []),
      writer_flushed = (\<lambda>written. written),
      json_load = (\<lambda>raw. Inr j),
      config_save_pretrained = (\<lambda>config dir fs. (Inr (), fs(path_join dir ''config.json'' \<mapsto> []))),
      safe_load_file = (\<lambda>raw. Inr []),
      load_state_dict = (\<lambda>config new_dict. Inr ()),
      model_save_pretrained =
        (\<lambda>model dir fs. (Inr (), fs(path_join dir ''model.safetensors'' \<mapsto> []))),
      make_converter = (\<lambda>fs path tokens. Inl (ExternalError path)),
      from_pretrained = (\<lambda>name. Inl (ExternalError name)),
      tokenizer_save_pretrained = (\<lambda>tokenizer dir fs. (Inr (), fs))\<rparr>"

section \<open>Properties\<close>

subsection \<open>Facts about replacement\<close>

lemma str_replace_Nil: "old \<noteq> [] \<Longrightarrow> str_replace old new [] = []"
  by (simp add: str_replace.simps)

lemma str_replace_Cons:
  "old \<noteq> [] \<Longrightarrow> str_replace old new (c # cs) =
     (if prefix old (c # cs) then new @ str_replace old new (drop (length old) (c # cs))
      else c # str_replace old new cs)"
  by (subst str_replace.simps) simp

text \<open>
  A prefix of the result lies before the first replacement, and is then a prefix of the
  input, or it reaches into a replacement.
\<close>

lemma prefix_str_replace_cases:
  assumes "old \<noteq> []" and "prefix p (str_replace old new s)"
  shows "prefix p s \<or> meets p new"
  using assms
proof (induction old new s arbitrary: p rule: str_replace.induct)
  case (1 old new s)
  show ?case
  proof (cases s)
    case Nil
    with "1.prems" show ?thesis by (simp add: str_replace_Nil)
  next
    case (Cons c cs)
    show ?thesis
    proof (cases "prefix old s")
      case True
      with "1.prems" Cons have "prefix p (new @ str_replace old new (drop (length old) s))"
        by (simp add: str_replace_Cons)
      then have "prefix p new \<or> prefix new p"
        by (auto simp: prefix_append)
      then show ?thesis by (cases p) auto
    next
      case False
      with "1.prems" Cons have pre: "prefix p (c # str_replace old new cs)"
        by (simp add: str_replace_Cons)
      show ?thesis
      proof (cases p)
        case Nil
        then show ?thesis by simp
      next
        case (Cons d p')
        with pre have d: "d = c" and p': "prefix p' (str_replace old new cs)" by simp_all
        from "1.IH"(2) [of p'] \<open>s = c # cs\<close> False "1.prems"(1) p'
        have "prefix p' cs \<or> meets p' new" by simp
        with Cons d \<open>s = c # cs\<close> show ?thesis by auto
      qed
    qed
  qed
qed

lemma sublist_Cons_append:
  "sublist (t # rest) (new @ r) \<Longrightarrow> t \<in> set new \<or> sublist (t # rest) r"
  by (induction new) (auto simp: sublist_Cons_right)

text \<open>
  When the first character of \<open>old\<close> does not occur in \<open>new\<close> and the rest of \<open>old\<close>
  cannot run into \<open>new\<close>, no occurrence of \<open>old\<close> is left after the replacement.
\<close>

lemma str_replace_no_occurrence:
  assumes "old = t # rest" and "t \<notin> set new" and "\<not> meets rest new"
  shows "\<not> sublist old (str_replace old new s)"
  using assms
proof (induction old new s rule: str_replace.induct)
  case (1 old new s)
  have ne: "old \<noteq> []" using "1.prems"(1) by simp
  show ?case
  proof (cases s)
    case Nil
    with ne show ?thesis by (simp add: str_replace_Nil)
  next
    case (Cons c cs)
    show ?thesis
    proof (cases "prefix old s")
      case True
      with "1.IH"(1) "1.prems" ne Cons
      have ih: "\<not> sublist old (str_replace old new (drop (length old) s))" by simp
      have "str_replace old new s = new @ str_replace old new (drop (length old) s)"
        using True ne Cons by (simp add: str_replace_Cons)
      with ih "1.prems"(1,2) show ?thesis
        using sublist_Cons_append [of t rest new] by auto
    next
      case False
      with "1.IH"(2) "1.prems" ne Cons
      have ih: "\<not> sublist old (str_replace old new cs)" by simp
      have eq: "str_replace old new s = c # str_replace old new cs"
        using False ne Cons by (simp add: str_replace_Cons)
      have "\<not> prefix old (c # str_replace old new cs)"
      proof
        assume "prefix old (c # str_replace old new cs)"
        with "1.prems"(1) have tc: "t = c" and pr: "prefix rest (str_replace old new cs)"
          by auto
        from prefix_str_replace_cases [OF ne pr] "1.prems"(3) have "prefix rest cs" by simp
        with tc "1.prems"(1) Cons False show False by simp
      qed
      with ih eq show ?thesis by (simp add: sublist_Cons_right)
    qed
  qed
qed

lemma str_replace_absent:
  "old \<noteq> [] \<Longrightarrow> \<not> sublist old s \<Longrightarrow> str_replace old new s = s"
proof (induction old new s rule: str_replace.induct)
  case (1 old new s)
  show ?case
  proof (cases s)
    case Nil
    with "1.prems" show ?thesis by (simp add: str_replace_Nil)
  next
    case (Cons c cs)
    with "1.prems" have np: "\<not> prefix old s" and ns: "\<not> sublist old cs"
      by (auto simp: sublist_Cons_right)
    with "1.IH"(2) "1.prems"(1) Cons have "str_replace old new cs = cs" by simp
    with np Cons "1.prems"(1) show ?thesis by (simp add: str_replace_Cons)
  qed
qed

subsection \<open>The rules on keys of the output layer\<close>

lemma no_transformer_left:
  "\<not> sublist ''transformer.output_layer.'' (str_replace ''transformer.'' ''model.'' key)"
proof -
  have "\<not> sublist ''transformer.'' (str_replace ''transformer.'' ''model.'' key)"
    by (rule str_replace_no_occurrence [where t = "CHR ''t''" and rest = "''ransformer.''"])
      simp_all
  moreover have "sublist ''transformer.'' ''transformer.output_layer.''"
    by (rule prefix_imp_sublist) simp
  ultimately show ?thesis
    using sublist_order.order.trans by blast
qed

lemma first_rule_on_output_layer:
  "str_replace ''transformer.'' ''model.'' (''transformer.output_layer.'' @ r)
     = ''model.output_layer.'' @ str_replace ''transformer.'' ''model.'' r"
  by (simp add: str_replace_Cons)

lemma later_rules_keep_prefix:
  assumes "(old, new) \<in> set (tl STATE_DICT_MAPPING)" and "prefix ''model.output_layer.'' s"
  shows "prefix ''model.output_layer.'' (str_replace old new s)"
proof -
  from assms(2) obtain x where s: "s = ''model.output_layer.'' @ x" by (auto elim: prefixE)
  from assms(1) show ?thesis
    unfolding s STATE_DICT_MAPPING_def
    by (auto simp: str_replace_Cons)
qed

lemma fold_rules_keep_prefix:
  assumes "set rules \<subseteq> set (tl STATE_DICT_MAPPING)" and "prefix ''model.output_layer.'' s"
  shows "prefix ''model.output_layer.''
           (fold (\<lambda>(old, new) new_key. str_replace old new new_key) rules s)"
  using assms
proof (induction rules arbitrary: s)
  case Nil
  then show ?case by simp
next
  case (Cons rule rules)
  obtain old new where rule: "rule = (old, new)" by (cases rule)
  with Cons.prems have "prefix ''model.output_layer.'' (str_replace old new s)"
    by (intro later_rules_keep_prefix) auto
  with Cons.IH [of "str_replace old new s"] Cons.prems(1) rule show ?case by simp
qed

lemma rename_key_output_layer:
  "prefix ''model.output_layer.'' (rename_key (''transformer.output_layer.'' @ rest))"
proof -
  have "rename_key (''transformer.output_layer.'' @ rest)
          = fold (\<lambda>(old, new) new_key. str_replace old new new_key) (tl STATE_DICT_MAPPING)
              (str_replace ''transformer.'' ''model.'' (''transformer.output_layer.'' @ rest))"
    by (simp add: rename_key_def STATE_DICT_MAPPING_def)
  then show ?thesis
    by (simp only: first_rule_on_output_layer) (rule fold_rules_keep_prefix, simp_all)
qed

text \<open>The keys of the new dictionary are the renamed keys of the old one.\<close>

lemma keys_fold_update:
  "fst ` set (fold (\<lambda>(key, value) new_dict. AList.update (f key) value new_dict) d acc)
     = fst ` set acc \<union> f ` fst ` set d"
proof (induction d arbitrary: acc)
  case Nil
  then show ?case by simp
next
  case (Cons item d)
  obtain key "value" where "item = (key, value)" by (cases item)
  with Cons.IH [of "AList.update (f key) value acc"] show ?case
    by (auto simp: dom_update)
qed

lemma keys_convert_state_dict:
  "fst ` set (convert_state_dict d) = rename_key ` fst ` set d"
  by (simp add: convert_state_dict_def keys_fold_update)

subsection \<open>Claims about the weight key remapper\<close>

text \<open>
  C1: the key \<^verbatim>\<open>transformer.encoder.layers.3.self_attention.query_key_value.weight\<close> is
  renamed to \<^verbatim>\<open>model.layers.3.self_attn.qkv_proj.weight\<close> by the rules of
  \<^verbatim>\<open>STATE_DICT_MAPPING\<close>, applied in their order, and \<^verbatim>\<open>convert_state_dict\<close> produces
  that name: a dictionary with this one key becomes one with the new key and the same
  value, and the new key is among the keys of the output of every dictionary that
  holds the old one.
\<close>

theorem rename_key_example:
  "rename_key ''transformer.encoder.layers.3.self_attention.query_key_value.weight''
     = ''model.layers.3.self_attn.qkv_proj.weight''
   \<and> convert_state_dict
       [(''transformer.encoder.layers.3.self_attention.query_key_value.weight'', v)]
     = [(''model.layers.3.self_attn.qkv_proj.weight'', v)]
   \<and> ''model.layers.3.self_attn.qkv_proj.weight'' \<in> fst ` set (convert_state_dict
        (before @ (''transformer.encoder.layers.3.self_attention.query_key_value.weight'', v)
           # later))"
proof -
  have renamed:
    "rename_key ''transformer.encoder.layers.3.self_attention.query_key_value.weight''
       = ''model.layers.3.self_attn.qkv_proj.weight''"
    by (simp add: rename_key_def STATE_DICT_MAPPING_def str_replace_Nil str_replace_Cons)
  have "rename_key ''transformer.encoder.layers.3.self_attention.query_key_value.weight''
          \<in> fst ` set (convert_state_dict
        (before @ (''transformer.encoder.layers.3.self_attention.query_key_value.weight'', v)
           # later))"
    by (simp add: keys_convert_state_dict)
  with renamed show ?thesis
    by (simp add: convert_state_dict_def)
qed

text \<open>
  C2: the rule list does not obey the discipline that a longer old substring stands
  before a shorter one it begins with: \<^verbatim>\<open>transformer.\<close> stands before
  \<^verbatim>\<open>transformer.output_layer.\<close>, and this is the only pair out of order. So the key
  \<^verbatim>\<open>transformer.output_layer.weight\<close> is renamed to \<^verbatim>\<open>model.output_layer.weight\<close>, not to
  \<^verbatim>\<open>lm_head.weight\<close>.
\<close>

theorem rule_order_broken:
  "\<not> longer_prefix_first STATE_DICT_MAPPING
   \<and> longer_prefix_first (remove1 (''transformer.'', ''model.'') STATE_DICT_MAPPING)
   \<and> rename_key ''transformer.output_layer.weight'' = ''model.output_layer.weight''"
  by (simp add: rename_key_def STATE_DICT_MAPPING_def str_replace_Nil str_replace_Cons
      strict_prefix_def)

text \<open>
  C10: the names \<^verbatim>\<open>convert_state_dict\<close> produces are the renamed names of its input, and
  every name that begins with \<^verbatim>\<open>transformer.output_layer.\<close> is renamed to a name that
  begins with \<^verbatim>\<open>model.output_layer.\<close>, never to one that begins with \<^verbatim>\<open>lm_head.\<close>.
  After the first rule no name holds \<^verbatim>\<open>transformer.output_layer.\<close> any more, whatever
  the name was, so the second rule never replaces anything: without it every name is
  renamed the same.
\<close>

theorem output_layer_rule_is_dead:
  "fst ` set (convert_state_dict d) = rename_key ` fst ` set d
   \<and> prefix ''model.output_layer.'' (rename_key (''transformer.output_layer.'' @ rest))
   \<and> \<not> prefix ''lm_head.'' (rename_key (''transformer.output_layer.'' @ rest))
   \<and> \<not> sublist ''transformer.output_layer.'' (str_replace ''transformer.'' ''model.'' key)
   \<and> rename_key key =
       fold (\<lambda>(old, new) new_key. str_replace old new new_key)
         (remove1 (''transformer.output_layer.'', ''lm_head.'') STATE_DICT_MAPPING) key"
proof (intro conjI)
  show "fst ` set (convert_state_dict d) = rename_key ` fst ` set d"
    by (rule keys_convert_state_dict)
  show p: "prefix ''model.output_layer.'' (rename_key (''transformer.output_layer.'' @ rest))"
    by (rule rename_key_output_layer)
  then obtain x where "rename_key (''transformer.output_layer.'' @ rest) = ''model.output_layer.'' @ x"
    by (auto elim: prefixE)
  then show "\<not> prefix ''lm_head.'' (rename_key (''transformer.output_layer.'' @ rest))"
    by simp
  show "\<not> sublist ''transformer.output_layer.'' (str_replace ''transformer.'' ''model.'' key)"
    by (rule no_transformer_left)
  then have "str_replace ''transformer.output_layer.'' ''lm_head.''
               (str_replace ''transformer.'' ''model.'' key)
             = str_replace ''transformer.'' ''model.'' key"
    by (simp add: str_replace_absent)
  then show "rename_key key =
       fold (\<lambda>(old, new) new_key. str_replace old new new_key)
         (remove1 (''transformer.output_layer.'', ''lm_head.'') STATE_DICT_MAPPING) key"
    by (simp add: rename_key_def STATE_DICT_MAPPING_def)
qed

text \<open>
  The loop of \<^verbatim>\<open>convert_state_dict\<close> from any dictionary built so far: a key of the
  result has the value of the last item that was renamed to it.
\<close>

lemma map_of_fold_update:
  "map_of (fold (\<lambda>(key, value) new_dict. AList.update (f key) value new_dict) d acc)
     = map_of acc ++ map_of (rev (map (\<lambda>(key, value). (f key, value)) d))"
proof (induction d arbitrary: acc)
  case Nil
  then show ?case by simp
next
  case (Cons item d)
  obtain key "value" where item: "item = (key, value)" by (cases item)
  show ?case
    by (rule ext) (simp add: item Cons.IH update_conv' map_add_def split: option.splits)
qed

lemma distinct_fold_update:
  "distinct (map fst acc) \<Longrightarrow>
   distinct (map fst (fold (\<lambda>(key, value) new_dict. AList.update (f key) value new_dict) d acc))"
  by (induction d arbitrary: acc) (auto simp: distinct_update)

lemma map_of_convert_state_dict:
  "map_of (convert_state_dict d) = map_of (rev (map (\<lambda>(key, value). (rename_key key, value)) d))"
  by (simp add: convert_state_dict_def map_of_fold_update)

text \<open>
  C8, as amended: an item of the input whose renamed key is not the renamed key of a
  later item has its value, unchanged, under its renamed key in the output; and every
  item of the output is the renamed key of an input item with that item's value.
\<close>

theorem convert_state_dict_values:
  "(d = before @ (key, value) # later
      \<and> (\<forall>(k', v') \<in> set later. rename_key k' \<noteq> rename_key key)
      \<longrightarrow> map_of (convert_state_dict d) (rename_key key) = Some value)
   \<and> (\<forall>(k', v') \<in> set (convert_state_dict d). \<exists>k. (k, v') \<in> set d \<and> k' = rename_key k)"
proof (intro conjI impI)
  assume a: "d = before @ (key, value) # later
      \<and> (\<forall>(k', v') \<in> set later. rename_key k' \<noteq> rename_key key)"
  let ?g = "\<lambda>(key, value). (rename_key key, value)"
  from a have "rename_key key \<notin> fst ` set (rev (map ?g later))" by force
  then have "map_of (rev (map ?g later)) (rename_key key) = None"
    by (simp add: map_of_eq_None_iff)
  with a show "map_of (convert_state_dict d) (rename_key key) = Some value"
    by (simp add: map_of_convert_state_dict map_add_def)
next
  let ?g = "\<lambda>(key, value). (rename_key key, value)"
  have dist: "distinct (map fst (convert_state_dict d))"
    unfolding convert_state_dict_def by (rule distinct_fold_update) simp
  show "\<forall>(k', v') \<in> set (convert_state_dict d). \<exists>k. (k, v') \<in> set d \<and> k' = rename_key k"
  proof clarify
    fix k' v'
    assume "(k', v') \<in> set (convert_state_dict d)"
    with dist have "map_of (convert_state_dict d) k' = Some v'" by simp
    then have "(k', v') \<in> set (rev (map ?g d))"
      by (simp only: map_of_convert_state_dict) (rule map_of_SomeD)
    then show "\<exists>k. (k, v') \<in> set d \<and> k' = rename_key k" by auto
  qed
qed

text \<open>An instance: two keys that are renamed apart.\<close>

theorem convert_state_dict_values_witness:
  "map_of (convert_state_dict [(''transformer.w'', 1 :: nat), (''dense.b'', 2)])
     ''model.w'' = Some 1"
  using convert_state_dict_values
    [of "[(''transformer.w'', 1 :: nat), (''dense.b'', 2)]" "[]" "''transformer.w''" 1
        "[(''dense.b'', 2)]"]
  by (simp add: rename_key_def STATE_DICT_MAPPING_def str_replace_Nil str_replace_Cons)

text \<open>
  As first stated, for every item of the input, C8 fails: two keys renamed to the same key
  leave one item, with the value of the second.
\<close>

theorem convert_state_dict_collision:
  "convert_state_dict [(''transformer.w'', 1 :: nat), (''model.w'', 2)] = [(''model.w'', 2)]
   \<and> rename_key ''transformer.w'' = ''model.w''"
  by (simp add: convert_state_dict_def rename_key_def STATE_DICT_MAPPING_def
      str_replace_Nil str_replace_Cons)

subsection \<open>Facts about the config translator\<close>

lemma and_then_Inl [simp]: "and_then (Inl e) f = Inl e"
  by (simp add: and_then_def)

lemma and_then_Inr [simp]: "and_then (Inr x) f = f x"
  by (simp add: and_then_def)

text \<open>What follows an exception is not looked at.\<close>

lemma and_then_weak_cong [cong]: "m = m' \<Longrightarrow> and_then m f = and_then m' f"
  by simp

lemma and_then_eq_Inr:
  "and_then m f = Inr r \<longleftrightarrow> (\<exists>x. m = Inr x \<and> f x = Inr r)"
  by (cases m) simp_all

lemma remove_key_apply: "remove_key k d k' = (if k' = k then None else d k')"
  by (simp add: remove_key_def)

lemma and_then_pop_eq_Inr:
  "and_then (pop k d) f = Inr r \<longleftrightarrow> (\<exists>v. d k = Some v \<and> f (v, remove_key k d) = Inr r)"
  by (auto simp: pop_def split: option.splits)

lemma pop_Some: "d k = Some v \<Longrightarrow> pop k d = Inr (v, remove_key k d)"
  by (simp add: pop_def)

lemma pop_None: "d k = None \<Longrightarrow> pop k d = Inl (KeyError k)"
  by (simp add: pop_def)

lemma float_times_eq_Inr: "float_times c v = Inr r \<Longrightarrow> numeric v"
  by (cases v) (auto split: option.splits)

lemma and_then_float_times_eq_Inr:
  "and_then (float_times c v) f = Inr r \<longleftrightarrow> (\<exists>t. float_times c v = Inr t \<and> f t = Inr r)"
  by (rule and_then_eq_Inr)

lemma and_then_if:
  "and_then (if b then m else m') f = (if b then and_then m f else and_then m' f)"
  by simp

text \<open>
  When \<^verbatim>\<open>convert_config\<close> returns, every key it pops was there, and the two derived
  fields are as read.
\<close>

lemma convert_config_Inr_D:
  assumes "convert_config d = Inr (config, unused)"
  shows "(\<forall>k \<in> set (required_keys d). d k \<noteq> None)
    \<and> (\<exists>v. d ''rope_ratio'' = Some v
           \<and> float_times (Finite 10000) v = Inr (rope_theta config))
    \<and> Some (num_key_value_heads config) =
        (if multi_query d then d ''multi_query_group_num'' else d ''num_attention_heads'')"
  using assms
  unfolding convert_config_def required_keys_def unconditional_keys_def multi_query_def
  apply (clarsimp simp: and_then_pop_eq_Inr and_then_float_times_eq_Inr and_then_if remove_key_apply
       split: if_split_asm)
  subgoal for v va vb vc vd ve
    by (cases "truthy ve"; clarsimp)
  done

lemma float_times_numeric: "numeric v \<Longrightarrow> \<exists>t. float_times c v = Inr t"
  by (cases v) auto

lemma float_times_Finite:
  "r \<noteq> 0 \<Longrightarrow>
   float_times (Finite 10000) (JFloat (Finite r)) = Inr (JFloat (round_double (10000 * r)))"
  by (simp add: float_mul_def)

text \<open>Rounding, once the exponent of the number is known.\<close>

lemma floor_log2_eq:
  assumes "0 < x" and "2 powi e \<le> x" and "x < 2 powi (e + 1)"
  shows "\<lfloor>log 2 x\<rfloor> = e"
proof (rule floor_unique)
  have "2 powr (of_int e) \<le> x" using assms(2) by (simp add: powr_real_of_int')
  then show "of_int e \<le> log 2 x" using assms(1) by (simp add: le_log_iff)
  have "2 powr (of_int e + 1) = (2::real) powi (e + 1)"
    using powr_real_of_int' [of 2 "e + 1"] by simp
  with assms(3) have "x < 2 powr (of_int e + 1)" by simp
  then show "log 2 x < of_int e + 1" using assms(1) by (simp add: log_less_iff)
qed

lemma round_double_exponent:
  assumes "x \<noteq> 0" and "2 powi e \<le> \<bar>x\<bar>" and "\<bar>x\<bar> < 2 powi (e + 1)"
  shows "round_double x =
     (let ulp = 2 powi (max e (- 1022) - 52);
          n = round_half_even (\<bar>x\<bar> / ulp);
          y = of_int n * ulp
      in if 2 ^ 1024 \<le> y then (if 0 < x then PosInf else NegInf)
         else if n = 0 then (if 0 < x then Finite 0 else NegZero)
         else Finite (if 0 < x then y else - y))"
proof -
  have "\<lfloor>log 2 \<bar>x\<bar>\<rfloor> = e" using assms by (intro floor_log2_eq) simp_all
  with assms(1) show ?thesis by (simp add: round_double_def Let_def)
qed

lemmas round_double_eval = power_int_def power_one_over round_half_even_def Let_def

text \<open>
  Three products and a conversion: 10000 times 1.5 is exact; 10000 times the double
  next to 1 is rounded; 10000 times \<open>2 ^ 1023\<close> is infinite; and \<open>10 ^ 400\<close> is beyond
  the doubles.
\<close>

lemma round_double_15000: "round_double 15000 = Finite 15000"
  by (subst round_double_exponent [where e = 13]) (simp_all add: round_double_eval)

lemma round_double_next_to_1:
  "round_double (10000 * (1 + 1 / 2 ^ 52)) = Finite (10000 + 1 / 2 ^ 39)"
  by (subst round_double_exponent [where e = 13]) (simp_all add: round_double_eval)

lemma round_double_overflow: "round_double (10000 * 2 ^ 1023) = PosInf"
  by (subst round_double_exponent [where e = 1036]) (simp_all add: round_double_eval)

lemma int_to_float_huge: "int_to_float (10 ^ 400) = None"
proof -
  have "round_double (10 ^ 400) = PosInf"
    by (subst round_double_exponent [where e = 1328]) (simp_all add: round_double_eval)
  then show ?thesis by (simp add: int_to_float_def)
qed

lemma convert_config_returns:
  assumes present: "\<forall>k \<in> set (required_keys d). d k \<noteq> None"
      and valid: "\<exists>v. d ''rope_ratio'' = Some v \<and> numeric v"
  shows "\<exists>config unused. convert_config d = Inr (config, unused)"
proof -
  from valid obtain ratio t where ratio: "d ''rope_ratio'' = Some ratio"
      and t: "float_times (Finite 10000) ratio = Inr t"
    using float_times_numeric by blast
  from present ratio t show ?thesis
    unfolding required_keys_def unconditional_keys_def multi_query_def convert_config_def
    by (clarsimp simp: pop_def remove_key_apply split: if_split_asm)
qed

lemma convert_config_removed:
  assumes present: "\<forall>k \<in> set (required_keys d). d k \<noteq> None"
      and valid: "\<exists>v. d ''rope_ratio'' = Some v \<and> numeric v"
  shows "\<forall>k \<in> set (required_keys d). convert_config (remove_key k d) = Inl (KeyError k)"
proof -
  from valid obtain ratio t where ratio: "d ''rope_ratio'' = Some ratio"
      and t: "float_times (Finite 10000) ratio = Inr t"
    using float_times_numeric by blast
  from present ratio t show ?thesis
    unfolding required_keys_def unconditional_keys_def multi_query_def convert_config_def
    by (clarsimp simp: pop_def remove_key_apply split: if_split_asm)
qed

text \<open>When all fields are there, an exception of the product is that of the translation.\<close>

lemma convert_config_product_raises:
  assumes present: "\<forall>k \<in> set (required_keys d). d k \<noteq> None"
      and ratio: "d ''rope_ratio'' = Some ratio"
      and e: "float_times (Finite 10000) ratio = Inl e"
  shows "convert_config d = Inl e"
  using present ratio e
  unfolding required_keys_def unconditional_keys_def multi_query_def convert_config_def
  by (clarsimp simp: pop_def remove_key_apply split: if_split_asm)

subsection \<open>Claims about the config translator\<close>

text \<open>
  C4, as amended: \<^verbatim>\<open>convert_config\<close> returns the target configuration for every
  dictionary that holds the nineteen fields it always reads, and
  \<^verbatim>\<open>multi_query_group_num\<close> when the flag \<^verbatim>\<open>multi_query_attention\<close> is true, with a
  \<^verbatim>\<open>rope_ratio\<close> that is a float, a truth value or an integer a double can hold; and
  removing any one of these fields from such a dictionary raises the \<^verbatim>\<open>KeyError\<close> of
  that field.
\<close>

theorem convert_config_required_fields:
  assumes "\<forall>k \<in> set (required_keys d). d k \<noteq> None"
      and "\<exists>v. d ''rope_ratio'' = Some v \<and> numeric v"
  shows "(\<exists>config unused. convert_config d = Inr (config, unused))
       \<and> (\<forall>k \<in> set (required_keys d). convert_config (remove_key k d) = Inl (KeyError k))"
  using assms convert_config_returns convert_config_removed by blast

text \<open>The sample configuration holds every field, whatever the flag and the ratio.\<close>

lemma sample_config_present:
  "\<forall>k \<in> set (required_keys (sample_config flag ratio)). sample_config flag ratio k \<noteq> None"
  by (simp add: required_keys_def unconditional_keys_def multi_query_def sample_config_def)

lemma sample_config_flag:
  "sample_config flag ratio ''multi_query_attention'' = Some (JBool flag)"
  by (simp add: sample_config_def)

lemma sample_config_ratio: "sample_config flag ratio ''rope_ratio'' = Some ratio"
  by (simp add: sample_config_def)

lemma sample_config_groups:
  "sample_config flag ratio ''multi_query_group_num'' = Some (JInt 2)"
  by (simp add: sample_config_def)

lemma required_keys_sample_config:
  "required_keys (sample_config flag ratio)
     = unconditional_keys @ (if flag then [''multi_query_group_num''] else [])"
  by (simp add: required_keys_def multi_query_def sample_config_flag)

text \<open>An instance: the sample configuration with the flag set and a ratio of 1.5.\<close>

theorem convert_config_required_fields_witness:
  "(\<exists>config unused.
      convert_config (sample_config True (JFloat (Finite 1.5))) = Inr (config, unused))
   \<and> convert_config (remove_key ''hidden_size'' (sample_config True (JFloat (Finite 1.5))))
       = Inl (KeyError ''hidden_size'')
   \<and> convert_config
       (remove_key ''multi_query_group_num'' (sample_config True (JFloat (Finite 1.5))))
       = Inl (KeyError ''multi_query_group_num'')"
  using convert_config_required_fields
    [OF sample_config_present, of True "JFloat (Finite 1.5)"]
  by (simp add: required_keys_sample_config unconditional_keys_def sample_config_ratio)

lemma sample_config_without_groups_present:
  "\<forall>k \<in> set (required_keys (remove_key ''multi_query_group_num'' (sample_config False ratio))).
     remove_key ''multi_query_group_num'' (sample_config False ratio) k \<noteq> None"
  by (simp add: required_keys_def unconditional_keys_def multi_query_def sample_config_def
      remove_key_apply)

text \<open>
  As first stated, over one fixed set of required fields of valid types, C4 fails
  whichever way \<^verbatim>\<open>multi_query_group_num\<close> is counted. With the flag false the field can
  be removed and the translation still returns; with the flag true and the field
  removed all nineteen other fields are there and the translation raises. And with
  every field there, an integer \<^verbatim>\<open>rope_ratio\<close> of \<open>10 ^ 400\<close> raises an
  \<^verbatim>\<open>OverflowError\<close>.
\<close>

theorem convert_config_optional_field:
  "sample_config False (JFloat (Finite 1.5)) ''multi_query_group_num'' = Some (JInt 2)
   \<and> (\<exists>config unused.
        convert_config
          (remove_key ''multi_query_group_num'' (sample_config False (JFloat (Finite 1.5))))
          = Inr (config, unused))
   \<and> list_all
        (\<lambda>k. remove_key ''multi_query_group_num'' (sample_config True (JFloat (Finite 1.5))) k
               \<noteq> None)
        unconditional_keys
   \<and> convert_config
       (remove_key ''multi_query_group_num'' (sample_config True (JFloat (Finite 1.5))))
       = Inl (KeyError ''multi_query_group_num'')
   \<and> convert_config (sample_config True (JInt (10 ^ 400))) = Inl OverflowError"
proof (intro conjI)
  let ?ratio = "JFloat (Finite 1.5)"
  show "sample_config False ?ratio ''multi_query_group_num'' = Some (JInt 2)"
    by (rule sample_config_groups)
  show "\<exists>config unused.
        convert_config (remove_key ''multi_query_group_num'' (sample_config False ?ratio))
          = Inr (config, unused)"
    by (rule convert_config_returns [OF sample_config_without_groups_present])
      (simp add: sample_config_ratio remove_key_apply)
  show "list_all (\<lambda>k. remove_key ''multi_query_group_num'' (sample_config True ?ratio) k \<noteq> None)
        unconditional_keys"
    by (simp add: unconditional_keys_def sample_config_def remove_key_apply)
  have "\<exists>v. sample_config True ?ratio ''rope_ratio'' = Some v \<and> numeric v"
    by (simp add: sample_config_ratio)
  from convert_config_removed [OF sample_config_present this]
  show "convert_config (remove_key ''multi_query_group_num'' (sample_config True ?ratio))
       = Inl (KeyError ''multi_query_group_num'')"
    by (simp add: required_keys_sample_config)
  show "convert_config (sample_config True (JInt (10 ^ 400))) = Inl OverflowError"
    by (rule convert_config_product_raises [OF sample_config_present sample_config_ratio])
      (simp only: float_times.simps int_to_float_huge option.case)
qed

text \<open>
  C5, as amended: on a dictionary with the fields it reads, \<^verbatim>\<open>convert_config\<close> returns a
  configuration whose \<^verbatim>\<open>num_key_value_heads\<close> is the source's \<^verbatim>\<open>multi_query_group_num\<close>
  when the flag \<^verbatim>\<open>multi_query_attention\<close> is true and its \<^verbatim>\<open>num_attention_heads\<close> when it
  is false, and whose \<^verbatim>\<open>rope_theta\<close> is the product of the float 10000 and the source's
  \<^verbatim>\<open>rope_ratio\<close> as floats multiply: for a finite float other than zero, the double
  nearest to 10000 times the ratio, infinite beyond the doubles.
\<close>

theorem kv_heads_and_rope_theta:
  assumes "\<forall>k \<in> set (required_keys d). d k \<noteq> None"
      and "d ''multi_query_attention'' = Some (JBool flag)"
      and "d ''rope_ratio'' = Some ratio" and "numeric ratio"
  shows "\<exists>config unused. convert_config d = Inr (config, unused)
           \<and> Some (num_key_value_heads config) =
               (if flag then d ''multi_query_group_num'' else d ''num_attention_heads'')
           \<and> float_times (Finite 10000) ratio = Inr (rope_theta config)
           \<and> (\<forall>r. ratio = JFloat (Finite r) \<and> r \<noteq> 0
                 \<longrightarrow> rope_theta config = JFloat (round_double (10000 * r)))"
proof -
  from assms(3,4) have "\<exists>v. d ''rope_ratio'' = Some v \<and> numeric v" by simp
  with assms(1) obtain config unused where c: "convert_config d = Inr (config, unused)"
    using convert_config_returns by blast
  from convert_config_Inr_D [OF c] assms(2,3)
  have heads: "Some (num_key_value_heads config) =
               (if flag then d ''multi_query_group_num'' else d ''num_attention_heads'')"
    and theta: "float_times (Finite 10000) ratio = Inr (rope_theta config)"
    by (auto simp: multi_query_def)
  have "rope_theta config = JFloat (round_double (10000 * r))"
    if "ratio = JFloat (Finite r) \<and> r \<noteq> 0" for r
  proof -
    from that theta have "float_times (Finite 10000) (JFloat (Finite r)) = Inr (rope_theta config)"
      by simp
    moreover from that
    have "float_times (Finite 10000) (JFloat (Finite r)) = Inr (JFloat (round_double (10000 * r)))"
      by (intro float_times_Finite) simp
    ultimately show ?thesis by simp
  qed
  with c heads theta show ?thesis by blast
qed

text \<open>
  The example: flag true, two groups, thirty-two heads and a ratio of 1.5 give two
  key-value heads and a rotary base of 15000.
\<close>

theorem kv_heads_and_rope_theta_witness:
  "\<exists>config unused.
     convert_config (sample_config True (JFloat (Finite 1.5))) = Inr (config, unused)
     \<and> num_key_value_heads config = JInt 2 \<and> rope_theta config = JFloat (Finite 15000)"
  using kv_heads_and_rope_theta
    [of "sample_config True (JFloat (Finite 1.5))" True "JFloat (Finite 1.5)"]
  by (auto simp: sample_config_present sample_config_flag sample_config_ratio
      sample_config_groups float_mul_def round_double_15000)

text \<open>
  As first stated, with a rotary base of exactly 10000 times the ratio, C5 fails: for
  the double next to 1, written \<^verbatim>\<open>1.0000000000000002\<close>, the base is the double
  \<^verbatim>\<open>10000.000000000002\<close>, which is not 10000 times the ratio; and for the double
  \<open>2 ^ 1023\<close> the base is infinite.
\<close>

theorem rope_theta_is_rounded:
  "(\<exists>config unused.
      convert_config (sample_config True (JFloat (Finite (1 + 1 / 2 ^ 52))))
        = Inr (config, unused)
      \<and> rope_theta config = JFloat (Finite (10000 + 1 / 2 ^ 39)))
   \<and> (10000 + 1 / 2 ^ 39 :: real) \<noteq> 10000 * (1 + 1 / 2 ^ 52)
   \<and> (\<exists>config unused.
      convert_config (sample_config True (JFloat (Finite (2 ^ 1023)))) = Inr (config, unused)
      \<and> rope_theta config = JFloat PosInf)"
proof (intro conjI)
  have "(1 + 1 / 2 ^ 52 :: real) \<noteq> 0"
    by simp
  from float_times_Finite [OF this]
  have next_to_1: "float_times (Finite 10000) (JFloat (Finite (1 + 1 / 2 ^ 52)))
                     = Inr (JFloat (Finite (10000 + 1 / 2 ^ 39)))"
    by (simp only: round_double_next_to_1)
  have "(2 ^ 1023 :: real) \<noteq> 0"
    by simp
  from float_times_Finite [OF this]
  have huge: "float_times (Finite 10000) (JFloat (Finite (2 ^ 1023))) = Inr (JFloat PosInf)"
    by (simp only: round_double_overflow)
  have returns: "\<exists>config unused. convert_config (sample_config True (JFloat x))
                   = Inr (config, unused)" for x
    by (rule convert_config_returns [OF sample_config_present]) (simp add: sample_config_ratio)
  have theta: "float_times (Finite 10000) (JFloat x) = Inr (rope_theta config)"
    if "convert_config (sample_config True (JFloat x)) = Inr (config, unused)"
    for x config unused
    using convert_config_Inr_D [OF that] by (simp add: sample_config_ratio)
  from returns theta next_to_1
  show "\<exists>config unused.
      convert_config (sample_config True (JFloat (Finite (1 + 1 / 2 ^ 52))))
        = Inr (config, unused)
      \<and> rope_theta config = JFloat (Finite (10000 + 1 / 2 ^ 39))"
    by (metis sum.inject(2))
  show "(10000 + 1 / 2 ^ 39 :: real) \<noteq> 10000 * (1 + 1 / 2 ^ 52)"
    by simp
  from returns theta huge
  show "\<exists>config unused.
      convert_config (sample_config True (JFloat (Finite (2 ^ 1023)))) = Inr (config, unused)
      \<and> rope_theta config = JFloat PosInf"
    by (metis sum.inject(2))
qed

subsection \<open>Claims about the pipeline\<close>

lemma missing_key_raises:
  assumes "k \<in> set (required_keys d)" and "d k = None"
  shows "\<exists>e. convert_config d = Inl e"
proof (cases "convert_config d")
  case (Inl e)
  then show ?thesis by blast
next
  case (Inr r)
  obtain config unused where "r = (config, unused)" by (cases r)
  with Inr convert_config_Inr_D [of d config unused] assms show ?thesis by blast
qed

text \<open>
  C6: when \<^verbatim>\<open>config.json\<close> lacks a field that \<^verbatim>\<open>convert_config\<close> reads,
  \<^verbatim>\<open>convert_glm_model\<close> ends with the exception of \<^verbatim>\<open>convert_config\<close> and leaves the
  file system as it found it: nothing has been written.
\<close>

theorem missing_field_aborts_before_output:
  assumes "fs (path_join input_dir ''config.json'') = Some raw"
      and "json_load ext raw = Inr (JObj kvs)"
      and "k \<in> set (required_keys (map_of kvs))"
      and "map_of kvs k = None"
  shows "\<exists>e. convert_config (map_of kvs) = Inl e
           \<and> convert_glm_model ext input_dir output_dir fs = (Inl e, fs)"
proof -
  from missing_key_raises [OF assms(3,4)] obtain e where "convert_config (map_of kvs) = Inl e"
    by blast
  with assms(1,2) show ?thesis
    by (simp add: convert_glm_model_def)
qed

text \<open>An instance: a configuration file with a single field.\<close>

theorem missing_field_aborts_before_output_witness:
  "convert_glm_model (sample_collaborators (JObj [(''hidden_size'', JInt 4096)]))
     ''in'' ''out'' [''in/config.json'' \<mapsto> []]
   = (Inl (KeyError ''num_attention_heads''), [''in/config.json'' \<mapsto> []])"
proof -
  have path: "path_join ''in'' ''config.json'' = ''in/config.json''"
    by (simp add: path_join_def suffix_def)
  have raises: "convert_config (map_of [(''hidden_size'', JInt 4096)])
                  = Inl (KeyError ''num_attention_heads'')"
    by (simp add: convert_config_def pop_def)
  have "\<exists>e. convert_config (map_of [(''hidden_size'', JInt 4096)]) = Inl e
           \<and> convert_glm_model (sample_collaborators (JObj [(''hidden_size'', JInt 4096)]))
                ''in'' ''out'' [''in/config.json'' \<mapsto> []]
              = (Inl e, [''in/config.json'' \<mapsto> []])"
    by (rule missing_field_aborts_before_output
          [where raw = "[]" and k = "''num_attention_heads''"])
       (simp_all add: path sample_collaborators_def required_keys_def unconditional_keys_def)
  with raises show ?thesis by auto
qed

subsection \<open>Claims about the shard merger\<close>

lemmas merge_eval =
  merge_safetensors_def path_join_def sorted_by_ordinal_def and_then_def
  shard_ordinal_def py_int_def str_strip_def is_space_def is_digit_def digit_val_def suffix_def
  eval_nat_numeral

text \<open>
  With no shard in the listing the output file is written empty; and an exception of
  the sort key leaves the file system untouched.
\<close>

lemma merge_no_shards:
  assumes "filter (suffix ''.safetensors'') listing = []"
  shows "merge_safetensors flushed listing input_dir fs
           = (Inr (), fs(path_join input_dir ''consolidated.safetensors'' \<mapsto> []))"
  using assms by (simp add: merge_safetensors_def sorted_by_ordinal_def and_then_def)

lemma copy_shards_error:
  "copy_shards flushed fs out files written = (Inl e, written') \<Longrightarrow> \<exists>p. e = OSError p"
  by (induction files arbitrary: written) (auto split: option.splits)

lemma merge_parse_error_writes_nothing:
  assumes "merge_safetensors flushed listing input_dir fs = (Inl e, fs')"
      and "e = IndexError \<or> e = ValueError"
  shows "fs' = fs"
  using assms
  by (auto simp: merge_safetensors_def Let_def split: sum.splits prod.splits
      dest: copy_shards_error)

text \<open>
  C3: the output is meant to hold the shards in the order of their ordinals, however
  the directory lists them. The sort key is taken from the path, not from the file
  name: in the directory \<^verbatim>\<open>glm-4-9b\<close> every shard has the key 4, the stable sort keeps
  the order of the listing, and shard 2 is written before shard 1. In a directory
  whose name has no hyphen the same listing is merged in the order 1, 2.
\<close>

theorem shards_merged_in_listing_order:
  "merge_safetensors flushed
       [''model-00002-of-00002.safetensors'', ''model-00001-of-00002.safetensors'']
       ''glm-4-9b'' (two_shards ''glm-4-9b'')
     = (Inr (), (two_shards ''glm-4-9b'')(''glm-4-9b/consolidated.safetensors'' \<mapsto> [2, 3, 1]))
   \<and> shard_ordinal ''glm-4-9b/model-00001-of-00002.safetensors'' = Inr 4
   \<and> shard_ordinal ''glm-4-9b/model-00002-of-00002.safetensors'' = Inr 4
   \<and> merge_safetensors flushed
       [''model-00002-of-00002.safetensors'', ''model-00001-of-00002.safetensors'']
       ''ckpt'' (two_shards ''ckpt'')
     = (Inr (), (two_shards ''ckpt'')(''ckpt/consolidated.safetensors'' \<mapsto> [1, 2, 3]))"
  by (simp add: two_shards_def merge_eval)

text \<open>
  C7: a shard whose file name has no ordinal, or one that is not a number, is meant to
  raise before anything is written. In the directory \<^verbatim>\<open>glm-4-9b\<close> the key is taken
  from the directory's name, nothing is raised and the file is merged; in a directory
  whose name has no hyphen the same files raise and nothing is written. A listing
  with no shard gives an empty output file.
\<close>

theorem unnumbered_shard_is_merged:
  "merge_safetensors flushed [''model.safetensors''] ''glm-4-9b''
       (one_file ''glm-4-9b'' ''model.safetensors'')
     = (Inr (), (one_file ''glm-4-9b'' ''model.safetensors'')
                  (''glm-4-9b/consolidated.safetensors'' \<mapsto> [7]))
   \<and> merge_safetensors flushed [''model-x-of-y.safetensors''] ''glm-4-9b''
       (one_file ''glm-4-9b'' ''model-x-of-y.safetensors'')
     = (Inr (), (one_file ''glm-4-9b'' ''model-x-of-y.safetensors'')
                  (''glm-4-9b/consolidated.safetensors'' \<mapsto> [7]))
   \<and> merge_safetensors flushed [''model.safetensors''] ''ckpt'' (one_file ''ckpt'' ''model.safetensors'')
     = (Inl IndexError, one_file ''ckpt'' ''model.safetensors'')
   \<and> merge_safetensors flushed [''model-x-of-y.safetensors''] ''ckpt''
       (one_file ''ckpt'' ''model-x-of-y.safetensors'')
     = (Inl ValueError, one_file ''ckpt'' ''model-x-of-y.safetensors'')
   \<and> merge_safetensors flushed [''config.json''] ''ckpt'' (one_file ''ckpt'' ''config.json'')
     = (Inr (), (one_file ''ckpt'' ''config.json'')(''ckpt/consolidated.safetensors'' \<mapsto> []))"
  by (simp add: one_file_def merge_eval)

subsection \<open>Claims about the tokenizer rebuilder\<close>

lemma single_template:
  "parse_template ''[gMASK]:0 <sop>:0 $A:0''
     = Some [SpecialToken ''[gMASK]'' 0, SpecialToken ''<sop>'' 0, SequenceA 0]"
  by (simp add: parse_template_def parse_piece_def is_digit_def digit_val_def)

lemma pair_template:
  "parse_template ''[gMASK]:0 <sop>:0 $A:0 $B:1''
     = Some [SpecialToken ''[gMASK]'' 0, SpecialToken ''<sop>'' 0, SequenceA 0, SequenceB 1]"
  by (simp add: parse_template_def parse_piece_def is_digit_def digit_val_def)

text \<open>
  C9: the post-processor of the rebuilt tokenizer is the byte-level processor, not
  trimming offsets, followed by a template. The templates read \<^verbatim>\<open>[gMASK] <sop> $A\<close> for
  one input and \<^verbatim>\<open>[gMASK] <sop> $A $B\<close> for a pair, with type identifier 0 on all pieces
  but the second input, which has 1; \<^verbatim>\<open>[gMASK]\<close> is bound to the id 151331 and \<^verbatim>\<open><sop>\<close>
  to 151333. So an input \<open>a\<close> becomes the two ids and \<open>a\<close>, all of type 0, and a pair
  the two ids, \<open>a\<close> and \<open>b\<close>, of type 0 up to the end of \<open>a\<close> and 1 on \<open>b\<close>.
\<close>

theorem post_processor_wraps_inputs:
  "(\<exists>single_t pair_t special.
      post_processor (converted self) = [ByteLevel False, TemplateProcessing single_t pair_t special]
      \<and> parse_template single_t
          = Some [SpecialToken ''[gMASK]'' 0, SpecialToken ''<sop>'' 0, SequenceA 0]
      \<and> parse_template pair_t
          = Some [SpecialToken ''[gMASK]'' 0, SpecialToken ''<sop>'' 0, SequenceA 0, SequenceB 1]
      \<and> map_of special ''[gMASK]'' = Some 151331
      \<and> map_of special ''<sop>'' = Some 151333)
   \<and> post_process (post_processor (converted self)) [a]
       = Some \<lparr>ids = 151331 # 151333 # a, type_ids = 0 # 0 # replicate (length a) 0\<rparr>
   \<and> post_process (post_processor (converted self)) [a, b]
       = Some \<lparr>ids = 151331 # 151333 # a @ b,
                type_ids = 0 # 0 # replicate (length a) 0 @ replicate (length b) 1\<rparr>"
  by (simp add: converted_def single_template pair_template)

end
